theory Spec2Isabelle
  imports Main
begin

section \<open>JavaScript values, strings and calls\<close>

text \<open>
  The functions of the repository take and return JavaScript values. Their JSDoc types
  are \<^verbatim>\<open>string | null | undefined\<close>, and a parameter the caller leaves out is
  \<^verbatim>\<open>undefined\<close>, so a value is one of these three.

  A JavaScript string is a sequence of UTF-16 code units. A \<^typ>\<open>char\<close> stands for the
  code unit of the same number, so a \<^typ>\<open>string\<close> is a JavaScript string whose code
  units are all below 256. \<open>trim\<close> below is JavaScript's on every such string.
  \<open>toUpperCase\<close> below is JavaScript's on the strings of ASCII characters
  (\<open>is_ascii\<close>): beyond ASCII the upper case of a letter can lie outside this range
  or have two letters, and every statement about \<open>toUpperCase\<close> is made for ASCII
  strings only.
\<close>

datatype jsval = Undefined | Null | Str string

datatype error = TypeError

text \<open>Truthiness, as \<^verbatim>\<open>!x\<close>, \<^verbatim>\<open>x ? a : b\<close> and \<^verbatim>\<open>x || y\<close> test it:
  \<^verbatim>\<open>undefined\<close>, \<^verbatim>\<open>null\<close> and the empty string are falsy.\<close>

fun truthy :: "jsval \<Rightarrow> bool" where
  "truthy Undefined = False"
| "truthy Null = False"
| "truthy (Str s) = (s \<noteq> [])"

text \<open>The conversion a template literal \<^verbatim>\<open>`${x}`\<close> applies to \<open>x\<close>.\<close>

fun toString :: "jsval \<Rightarrow> string" where
  "toString Undefined = ''undefined''"
| "toString Null = ''null''"
| "toString (Str s) = s"

text \<open>White space and line terminators that \<^verbatim>\<open>String.prototype.trim\<close> strips, among
  the code units below 256: tab, line feed, vertical tab, form feed, carriage return,
  space and the no-break space U+00A0. (The others, U+FEFF, U+2028, U+2029 and the
  remaining space separators, are all above 255.)\<close>

definition is_space :: "char \<Rightarrow> bool" where
  "is_space c = (c = CHR 0x09 \<or> c = CHR 0x0A \<or> c = CHR 0x0B \<or> c = CHR 0x0C
     \<or> c = CHR 0x0D \<or> c = CHR 0x20 \<or> c = CHR 0xA0)"

definition trim :: "string \<Rightarrow> string" where
  "trim s = rev (dropWhile is_space (rev (dropWhile is_space s)))"

text \<open>ASCII strings, and \<^verbatim>\<open>String.prototype.toUpperCase\<close> on them: the letters
  \<^verbatim>\<open>a\<close> to \<^verbatim>\<open>z\<close> (97 to 122) move to \<^verbatim>\<open>A\<close> to \<^verbatim>\<open>Z\<close> (65 to 90), every other
  ASCII character stays.\<close>

definition is_ascii :: "string \<Rightarrow> bool" where
  "is_ascii s = list_all (\<lambda>c. (of_char c :: nat) < 128) s"

definition upper_char :: "char \<Rightarrow> char" where
  "upper_char c =
     (let n = (of_char c :: nat) in if 97 \<le> n \<and> n \<le> 122 then char_of (n - 32) else c)"

definition toUpperCase :: "string \<Rightarrow> string" where
  "toUpperCase s = map upper_char s"

text \<open>A method call \<^verbatim>\<open>x.trim()\<close> or \<^verbatim>\<open>x.toUpperCase()\<close>: reading a property of
  \<^verbatim>\<open>undefined\<close> or \<^verbatim>\<open>null\<close> raises a TypeError.\<close>

fun js_trim :: "jsval \<Rightarrow> error + jsval" where
  "js_trim (Str s) = Inr (Str (trim s))"
| "js_trim v = Inl TypeError"

fun js_toUpperCase :: "jsval \<Rightarrow> error + jsval" where
  "js_toUpperCase (Str s) = Inr (Str (toUpperCase s))"
| "js_toUpperCase v = Inl TypeError"

text \<open>The \<open>i\<close>-th parameter of a call with the argument list \<open>args\<close>: JavaScript binds
  a missing argument to \<^verbatim>\<open>undefined\<close> and drops the arguments beyond the parameters.\<close>

definition param :: "jsval list \<Rightarrow> nat \<Rightarrow> jsval" where
  "param args i = (if i < length args then args ! i else Undefined)"

section \<open>The ambient \<open>dataform\<close> object\<close>

text \<open>
  The functions read the global \<^verbatim>\<open>dataform\<close>: \<^verbatim>\<open>dataform.projectConfig.defaultSchema\<close>,
  \<^verbatim>\<open>dataform.projectConfig.warehouse\<close> and \<^verbatim>\<open>dataform.variable(name)\<close>, which is
  \<^verbatim>\<open>undefined\<close> for a compilation variable that is not set. It is passed explicitly.
\<close>

record projectConfig =
  defaultSchema :: jsval
  warehouse :: jsval

record dataform =
  projectConfig :: projectConfig
  vars :: "string \<rightharpoonup> string"

definition variable :: "dataform \<Rightarrow> string \<Rightarrow> jsval" where
  "variable df name = (case vars df name of None \<Rightarrow> Undefined | Some v \<Rightarrow> Str v)"

section \<open>\<open>centsToDollars\<close>: dispatch on the warehouse\<close>

text \<open>
  \<^verbatim>\<open>
  function centsToDollars(column_name) {
    const warehouse = dataform.projectConfig.warehouse;
    switch (warehouse) {
      case "bigquery":  return `round(cast((${column_name} / 100) as numeric), 2)`;
      case "postgres":  return `(${column_name}::numeric(16, 2) / 100)`;
      case "sqlserver": return `cast(${column_name} / 100 as numeric(16,2))`;
      default:          return `(${column_name} / 100)::numeric(16, 2)`;
    }
  }
  \<close>
\<close>

definition centsToDollars :: "dataform \<Rightarrow> jsval \<Rightarrow> error + string" where
  "centsToDollars df column_name =
     (let wh = warehouse (projectConfig df) in
      if wh = Str ''bigquery'' then
        Inr (''round(cast(('' @ toString column_name @ '' / 100) as numeric), 2)'')
      else if wh = Str ''postgres'' then
        Inr (''('' @ toString column_name @ ''::numeric(16, 2) / 100)'')
      else if wh = Str ''sqlserver'' then
        Inr (''cast('' @ toString column_name @ '' / 100 as numeric(16,2))'')
      else
        Inr (''('' @ toString column_name @ '' / 100)::numeric(16, 2)''))"

definition call_centsToDollars :: "dataform \<Rightarrow> jsval list \<Rightarrow> error + string" where
  "call_centsToDollars df args = centsToDollars df (param args 0)"

section \<open>\<open>dateTrunc\<close> and the stores query's \<open>dateTruncExpression\<close>\<close>

text \<open>
  \<^verbatim>\<open>
  function dateTrunc(period, column) {
    const unit = period.toUpperCase();
    return `DATE_TRUNC(${column}, ${unit})`;
  }
  \<close>
  The function reads nothing of \<^verbatim>\<open>dataform\<close>; the parameter \<open>df\<close> only records under
  which project configuration it runs.
\<close>

definition dateTrunc :: "dataform \<Rightarrow> jsval \<Rightarrow> jsval \<Rightarrow> error + string" where
  "dateTrunc df period column =
     (case js_toUpperCase period of
        Inl e \<Rightarrow> Inl e
      | Inr unit \<Rightarrow> Inr (''DATE_TRUNC('' @ toString column @ '', '' @ toString unit @ '')''))"

definition call_dateTrunc :: "dataform \<Rightarrow> jsval list \<Rightarrow> error + string" where
  "call_dateTrunc df args = dateTrunc df (param args 0) (param args 1)"

text \<open>
  The stores query switches on the warehouse, for the fixed date part \<^verbatim>\<open>day\<close> and the
  fixed column \<^verbatim>\<open>opened_at\<close>:
  \<^verbatim>\<open>
  switch (ctx.dataform.projectConfig.warehouse) {
    case "bigquery": dateTruncExpression = "DATE_TRUNC(opened_at, DAY)"; break;
    case "snowflake": case "redshift": case "postgres":
      dateTruncExpression = "DATE_TRUNC('day', opened_at)"; break;
    default: dateTruncExpression = "DATE_TRUNC('day', opened_at)";
  }
  \<close>
\<close>

definition dateTruncExpression :: "dataform \<Rightarrow> string" where
  "dateTruncExpression df =
     (let wh = warehouse (projectConfig df) in
      if wh = Str ''bigquery'' then ''DATE_TRUNC(opened_at, DAY)''
      else if wh = Str ''snowflake'' \<or> wh = Str ''redshift'' \<or> wh = Str ''postgres''
        then ''DATE_TRUNC('day', opened_at)''
      else ''DATE_TRUNC('day', opened_at)'')"

section \<open>\<open>generateSchemaName\<close>: the naming policy\<close>

text \<open>
  The second argument is \<^verbatim>\<open>undefined\<close>, \<^verbatim>\<open>null\<close> or an object
  \<^verbatim>\<open>{ resourceType?: string }\<close>; a property that is not there reads as \<^verbatim>\<open>undefined\<close>.
\<close>

record node =
  resourceType :: jsval

datatype node_arg = NodeUndefined | NodeNull | Node node

text \<open>\<^verbatim>\<open>node || {}\<close>\<close>

fun or_empty :: "node_arg \<Rightarrow> node_arg" where
  "or_empty (Node n) = Node n"
| "or_empty v = Node \<lparr>resourceType = Undefined\<rparr>"

text \<open>\<^verbatim>\<open>x.resourceType\<close>: a TypeError on \<^verbatim>\<open>undefined\<close> and \<^verbatim>\<open>null\<close>.\<close>

fun get_resourceType :: "node_arg \<Rightarrow> error + jsval" where
  "get_resourceType (Node n) = Inr (resourceType n)"
| "get_resourceType v = Inl TypeError"

text \<open>
  \<^verbatim>\<open>
  function generateSchemaName(customSchemaName, node) {
    const defaultSchema = dataform.projectConfig.defaultSchema;
    const environment = dataform.variable("environment");
    const effectiveNode = node || {};
    if (effectiveNode.resourceType === 'seed') {
      return customSchemaName ? customSchemaName.trim() : customSchemaName;
    }
    else if (!customSchemaName) { return defaultSchema; }
    else if (environment === "prod") {
      return `${defaultSchema}_${customSchemaName.trim()}`;
    }
    else { return defaultSchema; }
  }
  \<close>
\<close>

definition generateSchemaName :: "dataform \<Rightarrow> jsval \<Rightarrow> node_arg \<Rightarrow> error + jsval" where
  "generateSchemaName df customSchemaName node =
     (let default_schema = defaultSchema (projectConfig df);
          environment = variable df ''environment'';
          effectiveNode = or_empty node
      in case get_resourceType effectiveNode of
           Inl e \<Rightarrow> Inl e
         | Inr rt \<Rightarrow>
             if rt = Str ''seed'' then
               (if truthy customSchemaName then js_trim customSchemaName
                else Inr customSchemaName)
             else if \<not> truthy customSchemaName then Inr default_schema
             else if environment = Str ''prod'' then
               (case js_trim customSchemaName of
                  Inl e \<Rightarrow> Inl e
                | Inr t \<Rightarrow> Inr (Str (toString default_schema @ ''_'' @ toString t)))
             else Inr default_schema)"

text \<open>Project configurations used in the examples below.\<close>

definition project :: "string \<Rightarrow> string \<Rightarrow> (string \<rightharpoonup> string) \<Rightarrow> dataform" where
  "project schema wh vs =
     \<lparr>projectConfig = \<lparr>defaultSchema = Str schema, warehouse = Str wh\<rparr>, vars = vs\<rparr>"

section \<open>Auxiliary facts\<close>

lemma upper_char_idem: "upper_char (upper_char c) = upper_char c"
proof (cases "97 \<le> (of_char c :: nat) \<and> (of_char c :: nat) \<le> 122")
  case True
  then have small: "(of_char c :: nat) - 32 < 256"
    and out: "\<not> 97 \<le> (of_char c :: nat) - 32"
    by arith+
  have "(of_char (char_of (of_char c - 32 :: nat)) :: nat) = of_char c - 32"
    using small by simp
  with True out show ?thesis by (simp add: upper_char_def Let_def)
next
  case False
  then show ?thesis by (auto simp: upper_char_def Let_def)
qed

lemma toUpperCase_idem: "toUpperCase (toUpperCase s) = toUpperCase s"
  by (simp add: toUpperCase_def upper_char_idem)

lemma upper_char_not_lower:
  "\<not> (97 \<le> (of_char (upper_char c) :: nat) \<and> (of_char (upper_char c) :: nat) \<le> 122)"
proof (cases "97 \<le> (of_char c :: nat) \<and> (of_char c :: nat) \<le> 122")
  case True
  then have small: "(of_char c :: nat) - 32 < 256"
    and out: "\<not> 97 \<le> (of_char c :: nat) - 32"
    by arith+
  have "(of_char (char_of (of_char c - 32 :: nat)) :: nat) = of_char c - 32"
    using small by simp
  with True out show ?thesis by (simp add: upper_char_def Let_def)
next
  case False
  then show ?thesis by (auto simp: upper_char_def Let_def)
qed

lemma toUpperCase_day: "toUpperCase ''day'' = ''DAY''"
  and toUpperCase_Day: "toUpperCase ''Day'' = ''DAY''"
  and toUpperCase_DAY: "toUpperCase ''DAY'' = ''DAY''"
  by code_simp+

lemma trim_Nil_iff: "trim s = [] \<longleftrightarrow> (\<forall>c\<in>set s. is_space c)"
proof
  assume t: "trim s = []"
  have "dropWhile is_space s = []"
  proof (rule ccontr)
    assume ne: "dropWhile is_space s \<noteq> []"
    then have "\<not> is_space (hd (dropWhile is_space s))" by (rule hd_dropWhile)
    moreover have "hd (dropWhile is_space s) \<in> set (dropWhile is_space s)"
      using ne by simp
    moreover from t have "\<forall>x\<in>set (dropWhile is_space s). is_space x"
      by (simp add: trim_def dropWhile_eq_Nil_conv)
    ultimately show False by blast
  qed
  then show "\<forall>c\<in>set s. is_space c" by simp
next
  assume "\<forall>c\<in>set s. is_space c"
  then have d: "dropWhile is_space s = []" by simp
  show "trim s = []" unfolding trim_def d by simp
qed

lemma truthy_Str: "truthy c \<Longrightarrow> c = Str (toString c) \<and> toString c \<noteq> []"
  by (cases c) simp_all

text \<open>After \<^verbatim>\<open>node || {}\<close> the property read cannot fail.\<close>

lemma get_resourceType_or_empty:
  "get_resourceType (or_empty node) =
     Inr (case node of Node n \<Rightarrow> resourceType n | _ \<Rightarrow> Undefined)"
  by (cases node) simp_all

text \<open>The seed branch and the three other branches of \<open>generateSchemaName\<close>.\<close>

lemma generateSchemaName_seed_branch:
  assumes "get_resourceType (or_empty node) = Inr (Str ''seed'')"
  shows "generateSchemaName df c node =
           Inr (if truthy c then Str (trim (toString c)) else c)"
proof (cases "truthy c")
  case True
  then have "c = Str (toString c)" by (simp add: truthy_Str)
  then have "js_trim c = Inr (Str (trim (toString c)))" by (metis js_trim.simps(1))
  with assms True show ?thesis by (simp add: generateSchemaName_def)
next
  case False
  with assms show ?thesis by (simp add: generateSchemaName_def)
qed

lemma generateSchemaName_other_branches:
  assumes "get_resourceType (or_empty node) = Inr rt" and "rt \<noteq> Str ''seed''"
  shows "generateSchemaName df c node =
           Inr (if \<not> truthy c then defaultSchema (projectConfig df)
                else if variable df ''environment'' = Str ''prod''
                  then Str (toString (defaultSchema (projectConfig df)) @ ''_''
                            @ trim (toString c))
                else defaultSchema (projectConfig df))"
proof (cases "truthy c")
  case True
  then have "c = Str (toString c)" by (simp add: truthy_Str)
  then have "js_trim c = Inr (Str (trim (toString c)))" by (metis js_trim.simps(1))
  with assms True show ?thesis by (simp add: generateSchemaName_def)
next
  case False
  with assms show ?thesis by (simp add: generateSchemaName_def)
qed

section \<open>The naming policy: branches 2 to 4\<close>

text \<open>
  C1, as stated: for a resource that is not a seed, a custom name that is absent or empty
  after trimming gives the default schema. The code tests \<^verbatim>\<open>!customSchemaName\<close> on the
  untrimmed value, so a name of two spaces passes the test and, under \<^verbatim>\<open>prod\<close>, the
  result is the default schema followed by an underscore.
\<close>

theorem generateSchemaName_blank_prod_counterexample:
  "trim ''  '' = [] \<and>
   generateSchemaName (project ''analytics'' ''bigquery'' [''environment'' \<mapsto> ''prod''])
       (Str ''  '') (Node \<lparr>resourceType = Str ''model''\<rparr>)
     = Inr (Str ''analytics_'') \<and>
   generateSchemaName (project ''analytics'' ''bigquery'' [''environment'' \<mapsto> ''prod''])
       (Str ''  '') (Node \<lparr>resourceType = Str ''model''\<rparr>)
     \<noteq> Inr (defaultSchema (projectConfig
         (project ''analytics'' ''bigquery'' [''environment'' \<mapsto> ''prod''])))"
  by (simp add: generateSchemaName_def project_def variable_def trim_def is_space_def)

text \<open>
  C1, amended: for every resource that is not a seed and every default schema \<open>d\<close>, the
  result is \<open>d\<close> when the custom name is \<^verbatim>\<open>undefined\<close>, \<^verbatim>\<open>null\<close> or the empty string
  (nothing is trimmed before this test); otherwise it is \<open>d\<close>, an underscore and the
  trimmed custom name when the environment is \<^verbatim>\<open>prod\<close>; otherwise it is \<open>d\<close>.
\<close>

theorem generateSchemaName_non_seed:
  assumes "resourceType n \<noteq> Str ''seed''"
    and "defaultSchema (projectConfig df) = Str d" and "d \<noteq> []"
  shows "generateSchemaName df c (Node n) =
           Inr (Str (if c = Undefined \<or> c = Null \<or> c = Str [] then d
                     else if variable df ''environment'' = Str ''prod''
                       then d @ ''_'' @ trim (toString c)
                     else d))"
proof -
  have rt: "get_resourceType (or_empty (Node n)) = Inr (resourceType n)" by simp
  have falsy: "(\<not> truthy c) = (c = Undefined \<or> c = Null \<or> c = Str [])"
    by (cases c) simp_all
  show ?thesis
    unfolding generateSchemaName_other_branches [OF rt assms(1)] falsy
    by (simp add: assms(2))
qed

theorem generateSchemaName_non_seed_witness:
  "resourceType \<lparr>resourceType = Str ''model''\<rparr> \<noteq> Str ''seed'' \<and>
   defaultSchema (projectConfig (project ''analytics'' ''bigquery''
       [''environment'' \<mapsto> ''prod''])) = Str ''analytics'' \<and>
   ''analytics'' \<noteq> [] \<and>
   generateSchemaName (project ''analytics'' ''bigquery'' [''environment'' \<mapsto> ''prod''])
       (Str ''marketing'') (Node \<lparr>resourceType = Str ''model''\<rparr>)
     = Inr (Str ''analytics_marketing'')"
  using generateSchemaName_non_seed
    [of "\<lparr>resourceType = Str ''model''\<rparr>"
        "project ''analytics'' ''bigquery'' [''environment'' \<mapsto> ''prod'']"
        "''analytics''" "Str ''marketing''"]
  by (simp add: project_def variable_def trim_def is_space_def)

section \<open>\<open>centsToDollars\<close> on postgres and on an unregistered warehouse\<close>

text \<open>
  C2, as stated: on postgres the result for the operand \<^verbatim>\<open>price\<close> is
  \<^verbatim>\<open>(price::numeric(16,2) / 100)\<close>. The template of the code has a space after the
  comma, \<^verbatim>\<open>numeric(16, 2)\<close>, so the two strings differ.
\<close>

theorem centsToDollars_postgres_counterexample:
  "centsToDollars (project ''analytics'' ''postgres'' Map.empty) (Str ''price'')
     \<noteq> Inr ''(price::numeric(16,2) / 100)''"
  by (simp add: centsToDollars_def project_def)

text \<open>
  C2, amended: with the warehouse \<^verbatim>\<open>postgres\<close>, \<open>centsToDollars\<close> applied to \<^verbatim>\<open>price\<close>
  returns exactly \<^verbatim>\<open>(price::numeric(16, 2) / 100)\<close>.
\<close>

theorem centsToDollars_postgres:
  assumes "warehouse (projectConfig df) = Str ''postgres''"
  shows "centsToDollars df (Str ''price'') = Inr ''(price::numeric(16, 2) / 100)''"
  using assms by (simp add: centsToDollars_def)

theorem centsToDollars_postgres_witness:
  "warehouse (projectConfig (project ''analytics'' ''postgres'' Map.empty)) = Str ''postgres'' \<and>
   centsToDollars (project ''analytics'' ''postgres'' Map.empty) (Str ''price'')
     = Inr ''(price::numeric(16, 2) / 100)''"
  using centsToDollars_postgres [of "project ''analytics'' ''postgres'' Map.empty"]
  by (simp add: project_def)

text \<open>
  C3, as stated: on a warehouse that is none of \<^verbatim>\<open>bigquery\<close>, \<^verbatim>\<open>postgres\<close>,
  \<^verbatim>\<open>sqlserver\<close> the result for \<^verbatim>\<open>price\<close> is \<^verbatim>\<open>(price / 100)::numeric(16,2)\<close>. The
  default branch of the code writes \<^verbatim>\<open>numeric(16, 2)\<close>, with a space.
\<close>

theorem centsToDollars_fallback_counterexample:
  "centsToDollars (project ''analytics'' ''unknown-dialect'' Map.empty) (Str ''price'')
     \<noteq> Inr ''(price / 100)::numeric(16,2)''"
  by (simp add: centsToDollars_def project_def)

text \<open>
  C3, amended: for every warehouse value other than \<^verbatim>\<open>bigquery\<close>, \<^verbatim>\<open>postgres\<close> and
  \<^verbatim>\<open>sqlserver\<close>, \<open>centsToDollars\<close> returns the text of the default branch, for the
  operand \<^verbatim>\<open>price\<close> the string \<^verbatim>\<open>(price / 100)::numeric(16, 2)\<close>; it does not fail and
  the string is not empty.
\<close>

theorem centsToDollars_fallback:
  assumes "warehouse (projectConfig df) \<notin> {Str ''bigquery'', Str ''postgres'', Str ''sqlserver''}"
  shows "centsToDollars df (Str ''price'') = Inr ''(price / 100)::numeric(16, 2)'' \<and>
         centsToDollars df x = Inr (''('' @ toString x @ '' / 100)::numeric(16, 2)'') \<and>
         (\<exists>s. centsToDollars df x = Inr s \<and> s \<noteq> [])"
  using assms by (simp add: centsToDollars_def)

theorem centsToDollars_fallback_witness:
  "warehouse (projectConfig (project ''analytics'' ''unknown-dialect'' Map.empty))
     \<notin> {Str ''bigquery'', Str ''postgres'', Str ''sqlserver''} \<and>
   centsToDollars (project ''analytics'' ''unknown-dialect'' Map.empty) (Str ''price'')
     = Inr ''(price / 100)::numeric(16, 2)''"
  using centsToDollars_fallback [of "project ''analytics'' ''unknown-dialect'' Map.empty"]
  by (simp add: project_def)

section \<open>The naming policy: empty results, seeds, a missing default\<close>

text \<open>
  C4, as stated: \<open>generateSchemaName\<close> never returns an empty string, and a custom name
  of white space only is treated as absent. For a seed with the custom name of two
  spaces and the default schema \<^verbatim>\<open>analytics\<close> the result is the empty string.
\<close>

theorem generateSchemaName_seed_blank_counterexample:
  "generateSchemaName (project ''analytics'' ''bigquery'' Map.empty)
       (Str ''  '') (Node \<lparr>resourceType = Str ''seed''\<rparr>)
     = Inr (Str [])"
  by (simp add: generateSchemaName_def project_def trim_def is_space_def)

text \<open>
  C4, amended: for every resource that is not a seed (the node may be absent), every
  custom name and every context with a non-empty default schema, the result is a
  non-empty string; a non-empty custom name of white space only is not treated as
  absent: under \<^verbatim>\<open>prod\<close> the result is the default schema followed by an underscore
  (for an absent name it is the default schema), elsewhere it is the default schema.
  For a seed with a non-empty custom name the result is the empty string exactly when
  the name is white space only.
\<close>

theorem generateSchemaName_nonempty:
  assumes "defaultSchema (projectConfig df) = Str d" and "d \<noteq> []"
  shows "(get_resourceType (or_empty node) \<noteq> Inr (Str ''seed'') \<longrightarrow>
            (\<exists>s. generateSchemaName df c node = Inr (Str s) \<and> s \<noteq> [])) \<and>
         (get_resourceType (or_empty node) \<noteq> Inr (Str ''seed'') \<and> truthy c \<and>
          (\<forall>ch\<in>set (toString c). is_space ch) \<longrightarrow>
            generateSchemaName df c node =
              Inr (Str (if variable df ''environment'' = Str ''prod'' then d @ ''_'' else d))) \<and>
         (get_resourceType (or_empty node) \<noteq> Inr (Str ''seed'') \<and> \<not> truthy c \<longrightarrow>
            generateSchemaName df c node = Inr (Str d)) \<and>
         (get_resourceType (or_empty node) = Inr (Str ''seed'') \<and> truthy c \<longrightarrow>
            (generateSchemaName df c node = Inr (Str []) \<longleftrightarrow>
               (\<forall>ch\<in>set (toString c). is_space ch)))"
proof (intro conjI impI)
  assume ns: "get_resourceType (or_empty node) \<noteq> Inr (Str ''seed'')"
  obtain rt where rt: "get_resourceType (or_empty node) = Inr rt"
    by (simp add: get_resourceType_or_empty)
  with ns have "rt \<noteq> Str ''seed''" by simp
  from generateSchemaName_other_branches [OF rt this, of df c] assms
  show "\<exists>s. generateSchemaName df c node = Inr (Str s) \<and> s \<noteq> []" by simp
next
  assume a: "get_resourceType (or_empty node) \<noteq> Inr (Str ''seed'') \<and> truthy c \<and>
    (\<forall>ch\<in>set (toString c). is_space ch)"
  obtain rt where rt: "get_resourceType (or_empty node) = Inr rt"
    by (simp add: get_resourceType_or_empty)
  with a have ns: "rt \<noteq> Str ''seed''" by simp
  from a have t: "trim (toString c) = []" by (simp add: trim_Nil_iff)
  from generateSchemaName_other_branches [OF rt ns, of df c] assms a t
  show "generateSchemaName df c node =
          Inr (Str (if variable df ''environment'' = Str ''prod'' then d @ ''_'' else d))"
    by simp
next
  assume a: "get_resourceType (or_empty node) \<noteq> Inr (Str ''seed'') \<and> \<not> truthy c"
  obtain rt where rt: "get_resourceType (or_empty node) = Inr rt"
    by (simp add: get_resourceType_or_empty)
  with a have ns: "rt \<noteq> Str ''seed''" by simp
  from generateSchemaName_other_branches [OF rt ns, of df c] assms a
  show "generateSchemaName df c node = Inr (Str d)" by simp
next
  assume "get_resourceType (or_empty node) = Inr (Str ''seed'') \<and> truthy c"
  then have sd: "get_resourceType (or_empty node) = Inr (Str ''seed'')" and t: "truthy c"
    by simp_all
  from t show "generateSchemaName df c node = Inr (Str []) \<longleftrightarrow>
          (\<forall>ch\<in>set (toString c). is_space ch)"
    by (simp add: generateSchemaName_seed_branch [OF sd] trim_Nil_iff)
qed

theorem generateSchemaName_nonempty_witness:
  "defaultSchema (projectConfig (project ''analytics'' ''bigquery''
       [''environment'' \<mapsto> ''prod''])) = Str ''analytics'' \<and>
   ''analytics'' \<noteq> [] \<and>
   get_resourceType (or_empty NodeUndefined) \<noteq> Inr (Str ''seed'') \<and>
   truthy (Str [CHR 0x20, CHR 0xA0]) \<and>
   generateSchemaName (project ''analytics'' ''bigquery'' [''environment'' \<mapsto> ''prod''])
       (Str [CHR 0x20, CHR 0xA0]) NodeUndefined = Inr (Str ''analytics_'') \<and>
   generateSchemaName (project ''analytics'' ''bigquery'' [''environment'' \<mapsto> ''prod''])
       Undefined NodeUndefined = Inr (Str ''analytics'') \<and>
   get_resourceType (or_empty (Node \<lparr>resourceType = Str ''seed''\<rparr>)) = Inr (Str ''seed'') \<and>
   generateSchemaName (project ''analytics'' ''bigquery'' [''environment'' \<mapsto> ''prod''])
       (Str ''raw_data'') (Node \<lparr>resourceType = Str ''seed''\<rparr>) \<noteq> Inr (Str [])"
proof -
  let ?df = "project ''analytics'' ''bigquery'' [''environment'' \<mapsto> ''prod'']"
  let ?seed = "Node \<lparr>resourceType = Str ''seed''\<rparr>"
  have d: "defaultSchema (projectConfig ?df) = Str ''analytics''"
    by (simp add: project_def)
  have ne: "''analytics'' \<noteq> []" by simp
  have env: "variable ?df ''environment'' = Str ''prod''"
    by (simp add: project_def variable_def)
  have ns: "get_resourceType (or_empty NodeUndefined) \<noteq> Inr (Str ''seed'')" by simp
  have sd: "get_resourceType (or_empty ?seed) = Inr (Str ''seed'')" by simp
  have tr: "truthy (Str [CHR 0x20, CHR 0xA0])" by simp
  have ws: "\<forall>ch\<in>set (toString (Str [CHR 0x20, CHR 0xA0])). is_space ch"
    by (simp add: is_space_def)
  have sp: "\<not> (\<forall>ch\<in>set (toString (Str ''raw_data'')). is_space ch)"
    by (simp add: is_space_def)
  note blank = generateSchemaName_nonempty [OF d ne, of NodeUndefined "Str [CHR 0x20, CHR 0xA0]"]
  note absent = generateSchemaName_nonempty [OF d ne, of NodeUndefined Undefined]
  note seed = generateSchemaName_nonempty [OF d ne, of ?seed "Str ''raw_data''"]
  have b: "generateSchemaName ?df (Str [CHR 0x20, CHR 0xA0]) NodeUndefined
             = Inr (Str ''analytics_'')"
    using blank ns tr ws env by simp
  have a: "generateSchemaName ?df Undefined NodeUndefined = Inr (Str ''analytics'')"
    using absent ns by simp
  have s: "generateSchemaName ?df (Str ''raw_data'') ?seed \<noteq> Inr (Str [])"
    using seed sd sp by simp
  show ?thesis by (intro conjI) (rule d ne ns tr b a sd s)+
qed

text \<open>
  C5: for a seed, \<open>generateSchemaName\<close> returns the custom name trimmed when it is a
  non-empty string and the custom name as it is otherwise (the empty string,
  \<^verbatim>\<open>null\<close> or \<^verbatim>\<open>undefined\<close>); the result is the same under every project
  configuration, so the default schema is never used in this branch.
\<close>

theorem generateSchemaName_seed:
  assumes "resourceType n = Str ''seed''"
  shows "generateSchemaName df c (Node n) =
           Inr (case c of
                  Str s \<Rightarrow> if s \<noteq> [] then Str (trim s) else Str s
                | Null \<Rightarrow> Null
                | Undefined \<Rightarrow> Undefined) \<and>
         generateSchemaName df' c (Node n) = generateSchemaName df c (Node n)"
proof -
  have sd: "get_resourceType (or_empty (Node n)) = Inr (Str ''seed'')"
    using assms by simp
  show ?thesis
    by (cases c) (simp_all add: generateSchemaName_seed_branch [OF sd])
qed

theorem generateSchemaName_seed_witness:
  "resourceType \<lparr>resourceType = Str ''seed''\<rparr> = Str ''seed'' \<and>
   generateSchemaName (project ''analytics'' ''bigquery'' [''environment'' \<mapsto> ''prod''])
       (Str (CHR 0xA0 # ''raw_data '')) (Node \<lparr>resourceType = Str ''seed''\<rparr>)
     = Inr (Str ''raw_data'') \<and>
   generateSchemaName (project ''analytics'' ''bigquery'' [''environment'' \<mapsto> ''prod''])
       Undefined (Node \<lparr>resourceType = Str ''seed''\<rparr>) = Inr Undefined"
  using generateSchemaName_seed
    [of "\<lparr>resourceType = Str ''seed''\<rparr>"
        "project ''analytics'' ''bigquery'' [''environment'' \<mapsto> ''prod'']"
        "Str (CHR 0xA0 # ''raw_data '')"]
    generateSchemaName_seed
    [of "\<lparr>resourceType = Str ''seed''\<rparr>"
        "project ''analytics'' ''bigquery'' [''environment'' \<mapsto> ''prod'']"
        Undefined]
  by (simp add: trim_def is_space_def)

text \<open>
  C6, as stated: with an empty or absent default schema \<open>generateSchemaName\<close> fails
  with a ConfigurationError. The code has no check of the default schema and no
  \<^verbatim>\<open>throw\<close>: with the default schema the empty string it returns the empty string, and
  with the default schema \<^verbatim>\<open>undefined\<close> it returns \<^verbatim>\<open>undefined\<close> or, under \<^verbatim>\<open>prod\<close>,
  a name that starts with the text \<^verbatim>\<open>undefined_\<close>.
\<close>

theorem generateSchemaName_no_default_counterexample:
  "generateSchemaName
       \<lparr>projectConfig = \<lparr>defaultSchema = Str [], warehouse = Str ''bigquery''\<rparr>,
        vars = Map.empty\<rparr>
       Undefined (Node \<lparr>resourceType = Str ''model''\<rparr>) = Inr (Str []) \<and>
   generateSchemaName
       \<lparr>projectConfig = \<lparr>defaultSchema = Undefined, warehouse = Str ''bigquery''\<rparr>,
        vars = [''environment'' \<mapsto> ''prod'']\<rparr>
       (Str ''marketing'') (Node \<lparr>resourceType = Str ''model''\<rparr>)
     = Inr (Str ''undefined_marketing'')"
  by (simp add: generateSchemaName_def variable_def trim_def is_space_def)

text \<open>
  C6, amended: for every resource and custom name, if the default schema is empty or
  absent, \<open>generateSchemaName\<close> does not fail: it returns a value, and for a resource
  that is not a seed this value is the default schema as it is (the empty string,
  \<^verbatim>\<open>null\<close> or \<^verbatim>\<open>undefined\<close>) unless the custom name is a non-empty string and the
  environment is \<^verbatim>\<open>prod\<close>, where it is the text of the default schema, an underscore
  and the trimmed custom name.
\<close>

theorem generateSchemaName_no_default:
  assumes "\<not> truthy (defaultSchema (projectConfig df))"
  shows "(\<exists>v. generateSchemaName df c node = Inr v) \<and>
         (get_resourceType (or_empty node) \<noteq> Inr (Str ''seed'') \<longrightarrow>
            generateSchemaName df c node =
              Inr (if truthy c \<and> variable df ''environment'' = Str ''prod''
                   then Str (toString (defaultSchema (projectConfig df)) @ ''_''
                             @ trim (toString c))
                   else defaultSchema (projectConfig df)))"
proof -
  obtain rt where rt: "get_resourceType (or_empty node) = Inr rt"
    by (simp add: get_resourceType_or_empty)
  show ?thesis
  proof (cases "rt = Str ''seed''")
    case True
    with rt show ?thesis by (simp add: generateSchemaName_seed_branch)
  next
    case False
    from generateSchemaName_other_branches [OF rt False, of df c] rt False
    show ?thesis by simp
  qed
qed

theorem generateSchemaName_no_default_witness:
  "\<not> truthy (defaultSchema (projectConfig
       \<lparr>projectConfig = \<lparr>defaultSchema = Str [], warehouse = Str ''bigquery''\<rparr>,
        vars = [''environment'' \<mapsto> ''prod'']\<rparr>)) \<and>
   get_resourceType (or_empty (Node \<lparr>resourceType = Str ''model''\<rparr>)) \<noteq> Inr (Str ''seed'') \<and>
   generateSchemaName
       \<lparr>projectConfig = \<lparr>defaultSchema = Str [], warehouse = Str ''bigquery''\<rparr>,
        vars = [''environment'' \<mapsto> ''prod'']\<rparr>
       (Str ''marketing'') (Node \<lparr>resourceType = Str ''model''\<rparr>)
     = Inr (Str ''_marketing'')"
  using generateSchemaName_no_default
    [of "\<lparr>projectConfig = \<lparr>defaultSchema = Str [], warehouse = Str ''bigquery''\<rparr>,
          vars = [''environment'' \<mapsto> ''prod'']\<rparr>"
        "Str ''marketing''" "Node \<lparr>resourceType = Str ''model''\<rparr>"]
  by (simp add: variable_def trim_def is_space_def)

section \<open>Operand counts\<close>

text \<open>
  C7, as stated: a call fails with an ArityError exactly when the operand count differs
  from the arity. No function of the code counts its arguments: \<open>centsToDollars\<close>
  called with no operand interpolates \<^verbatim>\<open>undefined\<close>, and called with two operands it
  uses the first.
\<close>

theorem call_centsToDollars_arity_counterexample:
  "call_centsToDollars (project ''analytics'' ''postgres'' Map.empty) []
     = Inr ''(undefined::numeric(16, 2) / 100)'' \<and>
   call_centsToDollars (project ''analytics'' ''postgres'' Map.empty)
       [Str ''price'', Str ''cost'']
     = Inr ''(price::numeric(16, 2) / 100)''"
  by (simp add: call_centsToDollars_def centsToDollars_def param_def project_def)

text \<open>
  C7, amended: no call fails for its operand count. \<open>centsToDollars\<close> never fails: it
  reads its first operand, \<^verbatim>\<open>undefined\<close> when there is none, and ignores the others.
  \<open>dateTrunc\<close> reads its first two operands and ignores the others; it fails, with a
  TypeError, exactly when the first operand (the period) is missing, \<^verbatim>\<open>undefined\<close> or
  \<^verbatim>\<open>null\<close>. A call with the right number of string operands never fails.
\<close>

theorem calls_ignore_arity:
  "(\<exists>s. call_centsToDollars df args = Inr s) \<and>
   call_centsToDollars df args = call_centsToDollars df [param args 0] \<and>
   call_dateTrunc df args = call_dateTrunc df [param args 0, param args 1] \<and>
   ((\<exists>e. call_dateTrunc df args = Inl e) \<longleftrightarrow>
      (param args 0 = Undefined \<or> param args 0 = Null)) \<and>
   (\<exists>s. call_centsToDollars df [Str x] = Inr s) \<and>
   (\<exists>s. call_dateTrunc df [Str u, Str x] = Inr s)"
proof -
  have "\<exists>s. centsToDollars df v = Inr s" for v
    by (simp add: centsToDollars_def Let_def)
  moreover have "(\<exists>e. dateTrunc df p c = Inl e) \<longleftrightarrow> (p = Undefined \<or> p = Null)" for p c
    by (cases p) (simp_all add: dateTrunc_def)
  moreover have "\<exists>s. dateTrunc df (Str u) (Str x) = Inr s"
    by (simp add: dateTrunc_def)
  ultimately show ?thesis
    by (simp add: call_centsToDollars_def call_dateTrunc_def param_def)
qed

section \<open>\<open>dateTrunc\<close>\<close>

text \<open>
  C8, as stated: under every dialect other than \<^verbatim>\<open>bigquery\<close> the result is the
  fallback \<^verbatim>\<open>DATE_TRUNC('u', x)\<close>. \<open>dateTrunc\<close> reads no dialect ("assuming BigQuery
  syntax"): under \<^verbatim>\<open>postgres\<close> it returns the same text as under \<^verbatim>\<open>bigquery\<close>.
\<close>

theorem dateTrunc_postgres_counterexample:
  "dateTrunc (project ''analytics'' ''postgres'' Map.empty) (Str ''day'') (Str ''ordered_at'')
     = Inr ''DATE_TRUNC(ordered_at, DAY)'' \<and>
   dateTrunc (project ''analytics'' ''postgres'' Map.empty) (Str ''day'') (Str ''ordered_at'')
     \<noteq> Inr ''DATE_TRUNC('day', ordered_at)''"
  by code_simp

text \<open>
  C8, amended: for the ASCII unit \<open>u\<close> and the operand \<open>x\<close>, \<open>dateTrunc\<close> returns
  \<^verbatim>\<open>DATE_TRUNC(x, U)\<close>, the unit unquoted and upper-cased, under every dialect. The
  form with the unit quoted and in lower case is produced only by the stores query, as
  the fixed text \<^verbatim>\<open>DATE_TRUNC('day', opened_at)\<close>, for every warehouse other than
  \<^verbatim>\<open>bigquery\<close>; for \<^verbatim>\<open>bigquery\<close> that query has \<^verbatim>\<open>DATE_TRUNC(opened_at, DAY)\<close>.
\<close>

theorem dateTrunc_every_dialect:
  assumes "is_ascii u"
  shows "dateTrunc df (Str u) (Str x)
           = Inr (''DATE_TRUNC('' @ x @ '', '' @ toUpperCase u @ '')'') \<and>
         dateTruncExpression df =
           (if warehouse (projectConfig df) = Str ''bigquery''
            then ''DATE_TRUNC(opened_at, DAY)''
            else ''DATE_TRUNC('day', opened_at)'')"
  by (simp add: dateTrunc_def dateTruncExpression_def)

theorem dateTrunc_every_dialect_witness:
  "is_ascii ''day'' \<and>
   dateTrunc (project ''analytics'' ''postgres'' Map.empty) (Str ''day'') (Str ''ordered_at'')
     = Inr ''DATE_TRUNC(ordered_at, DAY)'' \<and>
   dateTruncExpression (project ''analytics'' ''postgres'' Map.empty)
     = ''DATE_TRUNC('day', opened_at)''"
proof -
  have a: "is_ascii ''day''" by (simp add: is_ascii_def)
  from dateTrunc_every_dialect [OF a, of "project ''analytics'' ''postgres'' Map.empty"
      "''ordered_at''"]
  show ?thesis using a by (simp add: toUpperCase_day project_def)
qed

text \<open>
  C10: \<open>dateTrunc\<close> does not depend on the case of its period: for every ASCII period
  \<open>p\<close> and every column \<open>c\<close> the result for \<open>p\<close> is the result for \<open>p\<close> in upper
  case, and it is the text \<^verbatim>\<open>DATE_TRUNC(c, P)\<close> with the upper-cased period \<open>P\<close>
  unquoted, in which no letter \<^verbatim>\<open>a\<close> to \<^verbatim>\<open>z\<close> is left; so \<^verbatim>\<open>day\<close>, \<^verbatim>\<open>Day\<close> and
  \<^verbatim>\<open>DAY\<close> all give \<^verbatim>\<open>DATE_TRUNC(c, DAY)\<close>.
\<close>

theorem dateTrunc_period_upper:
  assumes "is_ascii p"
  shows "dateTrunc df (Str p) (Str c) = dateTrunc df (Str (toUpperCase p)) (Str c) \<and>
         dateTrunc df (Str p) (Str c)
           = Inr (''DATE_TRUNC('' @ c @ '', '' @ toUpperCase p @ '')'') \<and>
         (\<forall>ch\<in>set (toUpperCase p).
            \<not> (97 \<le> (of_char ch :: nat) \<and> (of_char ch :: nat) \<le> 122)) \<and>
         dateTrunc df (Str ''day'') (Str c) = Inr (''DATE_TRUNC('' @ c @ '', DAY)'') \<and>
         dateTrunc df (Str ''Day'') (Str c) = Inr (''DATE_TRUNC('' @ c @ '', DAY)'') \<and>
         dateTrunc df (Str ''DAY'') (Str c) = Inr (''DATE_TRUNC('' @ c @ '', DAY)'')"
proof -
  have "\<forall>ch\<in>set (toUpperCase p).
          \<not> (97 \<le> (of_char ch :: nat) \<and> (of_char ch :: nat) \<le> 122)"
    unfolding toUpperCase_def using upper_char_not_lower by auto
  then show ?thesis
    by (simp add: dateTrunc_def toUpperCase_idem toUpperCase_day toUpperCase_Day
        toUpperCase_DAY)
qed

theorem dateTrunc_period_upper_witness:
  "is_ascii ''month'' \<and>
   dateTrunc (project ''analytics'' ''bigquery'' Map.empty) (Str ''month'') (Str ''ordered_at'')
     = dateTrunc (project ''analytics'' ''bigquery'' Map.empty) (Str ''MONTH'')
         (Str ''ordered_at'') \<and>
   dateTrunc (project ''analytics'' ''bigquery'' Map.empty) (Str ''month'') (Str ''ordered_at'')
     = Inr ''DATE_TRUNC(ordered_at, MONTH)''"
proof -
  have a: "is_ascii ''month''" by (simp add: is_ascii_def)
  have u: "toUpperCase ''month'' = ''MONTH''" by code_simp
  note t = dateTrunc_period_upper [OF a, of "project ''analytics'' ''bigquery'' Map.empty"
      "''ordered_at''", unfolded u]
  from t have e1: "dateTrunc (project ''analytics'' ''bigquery'' Map.empty)
        (Str ''month'') (Str ''ordered_at'')
      = dateTrunc (project ''analytics'' ''bigquery'' Map.empty) (Str ''MONTH'')
          (Str ''ordered_at'')"
    by (rule conjunct1)
  from t have "dateTrunc (project ''analytics'' ''bigquery'' Map.empty)
        (Str ''month'') (Str ''ordered_at'')
      = Inr (''DATE_TRUNC('' @ ''ordered_at'' @ '', '' @ ''MONTH'' @ '')'')"
    by (rule conjunct1 [OF conjunct2])
  then have e2: "dateTrunc (project ''analytics'' ''bigquery'' Map.empty)
        (Str ''month'') (Str ''ordered_at'')
      = Inr ''DATE_TRUNC(ordered_at, MONTH)''"
    by simp
  show ?thesis by (intro conjI) (rule a e1 e2)+
qed

section \<open>An absent node\<close>

text \<open>
  C9: with the node \<^verbatim>\<open>undefined\<close> or \<^verbatim>\<open>null\<close>, \<open>generateSchemaName\<close> raises no
  error for any custom name: the node is replaced by an object without
  \<^verbatim>\<open>resourceType\<close>, the seed branch is not taken, and the result is the one for any
  resource that is not a seed, computed by the branches 2 to 4.
\<close>

theorem generateSchemaName_absent_node:
  assumes "node = NodeUndefined \<or> node = NodeNull" and "resourceType n \<noteq> Str ''seed''"
  shows "or_empty node = Node \<lparr>resourceType = Undefined\<rparr> \<and>
         get_resourceType (or_empty node) \<noteq> Inr (Str ''seed'') \<and>
         (\<exists>v. generateSchemaName df c node = Inr v) \<and>
         generateSchemaName df c node = generateSchemaName df c (Node n) \<and>
         generateSchemaName df c node =
           Inr (if \<not> truthy c then defaultSchema (projectConfig df)
                else if variable df ''environment'' = Str ''prod''
                  then Str (toString (defaultSchema (projectConfig df)) @ ''_''
                            @ trim (toString c))
                else defaultSchema (projectConfig df))"
proof -
  have e: "or_empty node = Node \<lparr>resourceType = Undefined\<rparr>"
    using assms(1) by auto
  have rt: "get_resourceType (or_empty node) = Inr Undefined"
    by (simp add: e)
  have rn: "get_resourceType (or_empty (Node n)) = Inr (resourceType n)" by simp
  have u: "Undefined \<noteq> Str ''seed''" by simp
  show ?thesis
    unfolding generateSchemaName_other_branches [OF rt u]
      generateSchemaName_other_branches [OF rn assms(2)]
    by (simp add: e)
qed

theorem generateSchemaName_absent_node_witness:
  "(NodeNull = NodeUndefined \<or> NodeNull = NodeNull) \<and>
   resourceType \<lparr>resourceType = Str ''model''\<rparr> \<noteq> Str ''seed'' \<and>
   generateSchemaName (project ''analytics'' ''bigquery'' [''environment'' \<mapsto> ''prod''])
       (Str ''marketing'') NodeNull
     = generateSchemaName (project ''analytics'' ''bigquery'' [''environment'' \<mapsto> ''prod''])
         (Str ''marketing'') (Node \<lparr>resourceType = Str ''model''\<rparr>) \<and>
   generateSchemaName (project ''analytics'' ''bigquery'' [''environment'' \<mapsto> ''prod''])
       (Str ''marketing'') NodeNull
     = Inr (Str ''analytics_marketing'')"
proof -
  let ?df = "project ''analytics'' ''bigquery'' [''environment'' \<mapsto> ''prod'']"
  let ?model = "\<lparr>resourceType = Str ''model''\<rparr>"
  have a: "NodeNull = NodeUndefined \<or> NodeNull = NodeNull" by simp
  have b: "resourceType ?model \<noteq> Str ''seed''" by simp
  from generateSchemaName_absent_node [OF a b, of ?df "Str ''marketing''"]
  have eq: "generateSchemaName ?df (Str ''marketing'') NodeNull
              = generateSchemaName ?df (Str ''marketing'') (Node ?model)"
    by blast
  have v: "generateSchemaName ?df (Str ''marketing'') NodeNull
             = Inr (Str ''analytics_marketing'')"
    by (simp add: generateSchemaName_def project_def variable_def trim_def is_space_def)
  show ?thesis by (intro conjI) (rule a b eq v)+
qed

end
